theory Spec2Isabelle
  imports Main
begin

section \<open>JavaScript values\<close>

text \<open>
  The values the SDK hands to \<^verbatim>\<open>cli.ts\<close>: what a JSON response body can hold, plus
  \<^verbatim>\<open>undefined\<close>. Numbers are restricted to integers. An object is the list of its
  properties, looked up by name; a property that is not there reads as \<^verbatim>\<open>undefined\<close>.
\<close>

datatype jsval =
    JUndefined
  | JNull
  | JBool bool
  | JNum int
  | JStr string
  | JArr "jsval list"
  | JObj "(string \<times> jsval) list"

type_synonym jsobject = "(string \<times> jsval) list"

text \<open>The test JavaScript applies to the condition of an \<^verbatim>\<open>if\<close> and to the operands of
  \<^verbatim>\<open>&&\<close>, \<^verbatim>\<open>||\<close> and \<^verbatim>\<open>!\<close>.\<close>

fun truthy :: "jsval \<Rightarrow> bool" where
  "truthy JUndefined = False"
| "truthy JNull = False"
| "truthy (JBool b) = b"
| "truthy (JNum n) = (n \<noteq> 0)"
| "truthy (JStr s) = (s \<noteq> [])"
| "truthy (JArr xs) = True"
| "truthy (JObj kvs) = True"

text \<open>\<^verbatim>\<open>typeof v === "object"\<close>: true of objects, arrays and \<^verbatim>\<open>null\<close>.\<close>

fun typeof_object :: "jsval \<Rightarrow> bool" where
  "typeof_object JNull = True"
| "typeof_object (JArr xs) = True"
| "typeof_object (JObj kvs) = True"
| "typeof_object v = False"

text \<open>\<^verbatim>\<open>o.k\<close> on an object \<open>o\<close>.\<close>

definition js_prop :: "jsobject \<Rightarrow> string \<Rightarrow> jsval" where
  "js_prop obj k = (case map_of obj k of Some v \<Rightarrow> v | None \<Rightarrow> JUndefined)"

text \<open>\<^verbatim>\<open>v.k\<close> on a value the source has already found truthy (so the read cannot throw),
  for the property names the source reads: \<^verbatim>\<open>id\<close>, \<^verbatim>\<open>text\<close>, \<^verbatim>\<open>content\<close>, \<^verbatim>\<open>message\<close>,
  \<^verbatim>\<open>result\<close>. None of them is a property of an array or of a primitive.\<close>

fun js_get :: "jsval \<Rightarrow> string \<Rightarrow> jsval" where
  "js_get (JObj kvs) k = js_prop kvs k"
| "js_get v k = JUndefined"

text \<open>\<^verbatim>\<open>k in v\<close> on a truthy value of type object, for the same property names.\<close>

fun js_in :: "string \<Rightarrow> jsval \<Rightarrow> bool" where
  "js_in k (JObj kvs) = (map_of kvs k \<noteq> None)"
| "js_in k v = False"

text \<open>
  The two built-in conversions the source calls, \<^verbatim>\<open>JSON.stringify\<close> and \<^verbatim>\<open>String\<close>
  (which is also what a template literal applies to a number). They belong to the
  JavaScript runtime, not to this repository, and are taken as parameters.
\<close>

record Builtins =
  JSON_stringify :: "jsval \<Rightarrow> string"
  String :: "jsval \<Rightarrow> string"

text \<open>\<^verbatim>\<open>parts.join(sep)\<close>\<close>

fun join :: "string \<Rightarrow> string list \<Rightarrow> string" where
  "join sep [] = []"
| "join sep [x] = x"
| "join sep (x # y # ys) = x @ sep @ join sep (y # ys)"

section \<open>Thrown values and \<^verbatim>\<open>formatErrorDetails\<close>\<close>

text \<open>
  What a \<^verbatim>\<open>catch (err)\<close> can receive: an instance of \<^verbatim>\<open>Error\<close> with its message,
  the optional Node.js system error properties the source reads
  (\<^verbatim>\<open>code\<close>, \<^verbatim>\<open>syscall\<close>, \<^verbatim>\<open>hostname\<close>, \<^verbatim>\<open>port\<close>) and an optional \<^verbatim>\<open>cause\<close>, or any other
  value. \<open>None\<close> is a property that is absent or \<^verbatim>\<open>undefined\<close>. A cyclic cause chain is
  represented by its unrolling: \<^verbatim>\<open>extractError\<close> never looks below depth 4.
\<close>

datatype thrown =
    Error (message: string) (code: "string option") (syscall: "string option")
      (hostname: "string option") (port: "int option") (cause: "thrown option")
  | Thrown jsval

text \<open>Truthiness of an optional string property: there, and not the empty string.\<close>

fun truthy_str :: "string option \<Rightarrow> bool" where
  "truthy_str None = False"
| "truthy_str (Some s) = (s \<noteq> [])"

text \<open>Truthiness of a thrown value: every \<^verbatim>\<open>Error\<close> instance is an object.\<close>

fun truthy_thrown :: "thrown \<Rightarrow> bool" where
  "truthy_thrown (Error m c sc h p cs) = True"
| "truthy_thrown (Thrown v) = truthy v"

text \<open>
  The inner function \<^verbatim>\<open>extractError(e, depth)\<close>. The source pushes onto the shared array
  \<^verbatim>\<open>parts\<close>; the model returns the strings pushed, in order. The \<^verbatim>\<open>[DEBUG]\<close> lines that
  \<^verbatim>\<open>verbose\<close> adds go to the console only and are left out.
\<close>

fun extractError :: "Builtins \<Rightarrow> thrown \<Rightarrow> nat \<Rightarrow> string list" where
  "extractError B (Error msg cd sc hn pt cs) depth =
     (if depth > 3 then []
      else [if depth = 0 then msg else ''Caused by: '' @ msg]
        @ (case cd of Some c \<Rightarrow> if truthy_str cd then [''  Code: '' @ c] else [] | None \<Rightarrow> [])
        @ (case sc of Some c \<Rightarrow> if truthy_str sc then [''  Syscall: '' @ c] else [] | None \<Rightarrow> [])
        @ (case hn of
             Some h \<Rightarrow>
               if truthy_str hn
               then [''  Host: '' @ h @ '':''
                       @ (case pt of Some p \<Rightarrow> String B (JNum p) | None \<Rightarrow> [])]
               else []
           | None \<Rightarrow> [])
        @ (case cs of
             Some c \<Rightarrow> if truthy_thrown c then extractError B c (depth + 1) else []
           | None \<Rightarrow> []))"
| "extractError B (Thrown v) depth =
     (if depth > 3 then []
      else if v \<noteq> JNull \<and> typeof_object v then [JSON_stringify B v]
      else [String B v])"

definition formatErrorDetails :: "Builtins \<Rightarrow> thrown \<Rightarrow> string" where
  "formatErrorDetails B err = join [CHR 0x0A, CHR '' '', CHR '' ''] (extractError B err 0)"

section \<open>The session client\<close>

text \<open>
  The client of \<^verbatim>\<open>@opencode-ai/sdk\<close> is an external collaborator. Of it the source uses
  three calls, each of which either throws or resolves to a response object. The state
  \<open>'s\<close> stands for everything behind the client (connection, server); each call may
  change it. The calls made are recorded, in order.
\<close>

datatype call =
    SessionCreate string
  | SessionPrompt jsval string
  | SessionDelete jsval
  | InstanceClose

record 's OpencodeClient =
  session_create :: "string \<Rightarrow> 's \<Rightarrow> (thrown + jsobject) \<times> 's"
  session_prompt :: "jsval \<Rightarrow> string \<Rightarrow> 's \<Rightarrow> (thrown + jsobject) \<times> 's"
  session_delete :: "jsval \<Rightarrow> 's \<Rightarrow> (thrown + jsobject) \<times> 's"

section \<open>\<^verbatim>\<open>runPrompt\<close>\<close>

text \<open>
  The option \<^verbatim>\<open>verbose\<close> only adds lines to the console, here and in
  \<^verbatim>\<open>formatErrorDetails\<close>. The console is not part of the model, so neither function takes
  the option.
\<close>

datatype ErrorType = ERROR_TYPE_NONE | ERROR_TYPE_TOOL | ERROR_TYPE_SDK

record RunPromptResult =
  success :: bool
  errorType :: ErrorType
  resultText :: string

text \<open>Lines 153 to 171: the text taken from the response of a prompt that reported no error.\<close>

definition extractResultText :: "Builtins \<Rightarrow> jsobject \<Rightarrow> string" where
  "extractResultText B promptResponse =
     (let data = js_prop promptResponse ''data'' in
      if truthy data \<and> typeof_object data then
        if js_in ''text'' data \<and> truthy (js_get data ''text'') then
          String B (js_get data ''text'')
        else if js_in ''content'' data \<and> truthy (js_get data ''content'') then
          String B (js_get data ''content'')
        else if js_in ''message'' data \<and> truthy (js_get data ''message'') then
          String B (js_get data ''message'')
        else if js_in ''result'' data \<and> truthy (js_get data ''result'') then
          String B (js_get data ''result'')
        else JSON_stringify B data
      else JSON_stringify B (JObj promptResponse))"

text \<open>The title of the session, from the first 50 characters of the prompt (line 107).\<close>

definition sessionTitle :: "string \<Rightarrow> string" where
  "sessionTitle prompt = ''Prompt: '' @ take 50 prompt @ ''...''"

text \<open>
  The body of the \<^verbatim>\<open>try\<close> block. It ends by a \<^verbatim>\<open>return\<close> (\<open>Inr\<close>) or by a throw of one
  of the two awaited calls (\<open>Inl\<close>); with it come the value of the variable
  \<^verbatim>\<open>sessionId\<close> at that point, the calls made and the state of the client.
\<close>

definition tryBlock ::
  "Builtins \<Rightarrow> 's OpencodeClient \<Rightarrow> string \<Rightarrow> 's
    \<Rightarrow> (thrown + RunPromptResult) \<times> jsval \<times> call list \<times> 's" where
  "tryBlock B client prompt s =
     (let title = sessionTitle prompt in
      case session_create client title s of
        (Inl err, s1) \<Rightarrow> (Inl err, JUndefined, [SessionCreate title], s1)
      | (Inr sessionResponse, s1) \<Rightarrow>
          if truthy (js_prop sessionResponse ''error'')
            \<or> \<not> truthy (js_prop sessionResponse ''data'')
          then
            (let errorMsg =
               (if truthy (js_prop sessionResponse ''error'')
                then JSON_stringify B (js_prop sessionResponse ''error'')
                else ''Failed to create session'')
             in (Inr \<lparr>success = False, errorType = ERROR_TYPE_SDK,
                      resultText = ''Session creation failed: '' @ errorMsg\<rparr>,
                 JUndefined, [SessionCreate title], s1))
          else
            (let sessionId = js_get (js_prop sessionResponse ''data'') ''id'' in
             case session_prompt client sessionId prompt s1 of
               (Inl err, s2) \<Rightarrow>
                 (Inl err, sessionId,
                  [SessionCreate title, SessionPrompt sessionId prompt], s2)
             | (Inr promptResponse, s2) \<Rightarrow>
                 if truthy (js_prop promptResponse ''error'') then
                   (Inr \<lparr>success = False, errorType = ERROR_TYPE_TOOL,
                         resultText = JSON_stringify B (js_prop promptResponse ''error'')\<rparr>,
                    sessionId, [SessionCreate title, SessionPrompt sessionId prompt], s2)
                 else
                   (Inr \<lparr>success = True, errorType = ERROR_TYPE_NONE,
                         resultText = extractResultText B promptResponse\<rparr>,
                    sessionId, [SessionCreate title, SessionPrompt sessionId prompt], s2)))"

text \<open>The \<^verbatim>\<open>catch\<close> block: what the function will return once \<^verbatim>\<open>finally\<close> has run.\<close>

definition catchBlock :: "Builtins \<Rightarrow> thrown + RunPromptResult \<Rightarrow> RunPromptResult" where
  "catchBlock B outcome =
     (case outcome of
        Inr result \<Rightarrow> result
      | Inl err \<Rightarrow>
          \<lparr>success = False, errorType = ERROR_TYPE_SDK,
           resultText = ''SDK Error: '' @ formatErrorDetails B err\<rparr>)"

text \<open>
  The \<^verbatim>\<open>finally\<close> block: when \<^verbatim>\<open>sessionId\<close> is truthy the session is deleted, and whatever
  the deletion returns or throws is dropped.
\<close>

definition finallyBlock :: "'s OpencodeClient \<Rightarrow> jsval \<Rightarrow> 's \<Rightarrow> call list \<times> 's" where
  "finallyBlock client sessionId s =
     (if truthy sessionId
      then ([SessionDelete sessionId], snd (session_delete client sessionId s))
      else ([], s))"

definition runPrompt ::
  "Builtins \<Rightarrow> 's OpencodeClient \<Rightarrow> string \<Rightarrow> 's \<Rightarrow> RunPromptResult \<times> call list \<times> 's" where
  "runPrompt B client prompt s =
     (case tryBlock B client prompt s of
        (outcome, sessionId, calls, s') \<Rightarrow>
          (case finallyBlock client sessionId s' of
             (calls', s'') \<Rightarrow> (catchBlock B outcome, calls @ calls', s'')))"

section \<open>\<^verbatim>\<open>runPromptsSequential\<close>\<close>

record PromptEntry =
  name :: string
  content :: string

record RunSummary =
  completed :: nat
  toolErrors :: nat
  sdkErrors :: nat

record SequentialRunOptions =
  verbose :: bool
  stopOnSdkError :: bool
  stopOnToolError :: bool
  allowedTools :: "string list option"
  workingDir :: "string option"
  maxTurns :: "int option"

text \<open>
  What a run hands back: the summary the source returns, and with it the result of each
  call of \<^verbatim>\<open>runPrompt\<close> in order (one for each prompt attempted), the calls made on the
  client and the state the client is left in.
\<close>

type_synonym 's run = "RunSummary \<times> RunPromptResult list \<times> call list \<times> 's"

definition logged :: "RunPromptResult \<Rightarrow> call list \<Rightarrow> 's run \<Rightarrow> 's run" where
  "logged result calls rest =
     (case rest of (summary, results, calls', s) \<Rightarrow> (summary, result # results, calls @ calls', s))"

text \<open>
  The \<^verbatim>\<open>for\<close> loop, from the prompts not yet reached and the three counters. A
  \<^verbatim>\<open>break\<close> returns at once; the end of an iteration goes on with the next prompt.
\<close>

fun promptLoop ::
  "Builtins \<Rightarrow> 's OpencodeClient \<Rightarrow> SequentialRunOptions \<Rightarrow> PromptEntry list
    \<Rightarrow> RunSummary \<Rightarrow> 's \<Rightarrow> 's run" where
  "promptLoop B client options [] counters s = (counters, [], [], s)"
| "promptLoop B client options (p # ps) counters s =
     (case runPrompt B client (content p) s of
        (result, calls, s') \<Rightarrow>
          if errorType result = ERROR_TYPE_SDK then
            (let counters' = counters\<lparr>sdkErrors := sdkErrors counters + 1\<rparr> in
             if stopOnSdkError options then (counters', [result], calls, s')
             else logged result calls (promptLoop B client options ps counters' s'))
          else if errorType result = ERROR_TYPE_TOOL then
            (let counters' = counters\<lparr>toolErrors := toolErrors counters + 1\<rparr> in
             if stopOnToolError options then (counters', [result], calls, s')
             else logged result calls
                    (promptLoop B client options ps
                       (counters'\<lparr>completed := completed counters' + 1\<rparr>) s'))
          else
            logged result calls
              (promptLoop B client options ps
                 (counters\<lparr>completed := completed counters + 1\<rparr>) s'))"

text \<open>
  \<^verbatim>\<open>runPromptsSequential(client, prompts, options)\<close> of the variant that is handed a client
  built by \<^verbatim>\<open>createOpencodeClient\<close>: the loop, from three counters at zero.
\<close>

definition runPromptsSequential_client ::
  "Builtins \<Rightarrow> 's OpencodeClient \<Rightarrow> PromptEntry list \<Rightarrow> SequentialRunOptions \<Rightarrow> 's \<Rightarrow> 's run" where
  "runPromptsSequential_client B client prompts options s =
     promptLoop B client options prompts \<lparr>completed = 0, toolErrors = 0, sdkErrors = 0\<rparr> s"

text \<open>
  \<^verbatim>\<open>runPromptsSequential(prompts, options)\<close> of \<^verbatim>\<open>cli.ts\<close>, which builds the instance itself.
  \<^verbatim>\<open>createOpencode\<close> belongs to the SDK and is a parameter: given the configuration it
  throws, or resolves to an instance with a client and, possibly, a \<^verbatim>\<open>close\<close> function.
\<close>

definition DEFAULT_ALLOWED_TOOLS :: "string list" where
  "DEFAULT_ALLOWED_TOOLS = [''Read'', ''Write'', ''Edit'', ''Bash'', ''Glob'', ''Grep'']"

record Config =
  config_cwd :: "string option"
  config_allowedTools :: "string list option"

record 's Opencode =
  opencode_client :: "'s OpencodeClient"
  opencode_close :: "('s \<Rightarrow> (thrown + unit) \<times> 's) option"

text \<open>Lines 224 to 237: the configuration handed to \<^verbatim>\<open>createOpencode\<close>.\<close>

definition buildConfig :: "SequentialRunOptions \<Rightarrow> Config" where
  "buildConfig options =
     (let toolsToUse =
            (case allowedTools options of Some tools \<Rightarrow> tools | None \<Rightarrow> DEFAULT_ALLOWED_TOOLS)
      in \<lparr>config_cwd = (if truthy_str (workingDir options) then workingDir options else None),
          config_allowedTools = (if length toolsToUse > 0 then Some toolsToUse else None)\<rparr>)"

definition runPromptsSequential ::
  "Builtins \<Rightarrow> (Config \<Rightarrow> 's \<Rightarrow> (thrown + 's Opencode) \<times> 's) \<Rightarrow> PromptEntry list
    \<Rightarrow> SequentialRunOptions \<Rightarrow> 's \<Rightarrow> 's run" where
  "runPromptsSequential B createOpencode prompts options s =
     (case createOpencode (buildConfig options) s of
        (Inl error, s1) \<Rightarrow>
          (\<lparr>completed = 0, toolErrors = 0, sdkErrors = length prompts\<rparr>, [], [], s1)
      | (Inr opencode, s1) \<Rightarrow>
          (case promptLoop B (opencode_client opencode) options prompts
                  \<lparr>completed = 0, toolErrors = 0, sdkErrors = 0\<rparr> s1 of
             (summary, results, calls, s2) \<Rightarrow>
               (case opencode_close opencode of
                  Some closeFn \<Rightarrow> (summary, results, calls @ [InstanceClose], snd (closeFn s2))
                | None \<Rightarrow> (summary, results, calls, s2))))"

text \<open>The end of \<^verbatim>\<open>main\<close>: the exit code of the process, from the counters of the summary.\<close>

definition main_exitCode :: "RunSummary \<Rightarrow> int" where
  "main_exitCode summary =
     (if sdkErrors summary > 0 then 1
      else if toolErrors summary > 0 then 2
      else 0)"

text \<open>
  The options \<^verbatim>\<open>main\<close> passes when no flag is given: \<^verbatim>\<open>--stop-on-tool-error\<close> and
  \<^verbatim>\<open>--verbose\<close> default to false, and \<^verbatim>\<open>stopOnSdkError\<close> is true unless
  \<^verbatim>\<open>--no-stop-on-sdk-error\<close> is there.
\<close>

definition defaultOptions :: SequentialRunOptions where
  "defaultOptions =
     \<lparr>verbose = False, stopOnSdkError = True, stopOnToolError = False,
      allowedTools = None, workingDir = None, maxTurns = None\<rparr>"

section \<open>Notions of the specification\<close>

text \<open>The result on which the policy of the run leaves the loop.\<close>

definition stops :: "SequentialRunOptions \<Rightarrow> RunPromptResult \<Rightarrow> bool" where
  "stops options result =
     (errorType result = ERROR_TYPE_SDK \<and> stopOnSdkError options
      \<or> errorType result = ERROR_TYPE_TOOL \<and> stopOnToolError options)"

text \<open>The counters after one more result: step 4 of the orchestrator.\<close>

definition tally :: "SequentialRunOptions \<Rightarrow> RunPromptResult \<Rightarrow> RunSummary \<Rightarrow> RunSummary" where
  "tally options result counters =
     (if errorType result = ERROR_TYPE_SDK
        then counters\<lparr>sdkErrors := sdkErrors counters + 1\<rparr>
      else if errorType result = ERROR_TYPE_TOOL
        then (if stopOnToolError options
              then counters\<lparr>toolErrors := toolErrors counters + 1\<rparr>
              else counters\<lparr>toolErrors := toolErrors counters + 1,
                            completed := completed counters + 1\<rparr>)
      else counters\<lparr>completed := completed counters + 1\<rparr>)"

text \<open>How many of the results are of one kind.\<close>

definition outcomes :: "ErrorType \<Rightarrow> RunPromptResult list \<Rightarrow> nat" where
  "outcomes kind results = length (filter (\<lambda>r. errorType r = kind) results)"

text \<open>The prompts attempted: each attempt opens with one request for a session.\<close>

fun is_create :: "call \<Rightarrow> bool" where
  "is_create (SessionCreate title) = True"
| "is_create c = False"

definition attempted :: "call list \<Rightarrow> nat" where
  "attempted calls = length (filter is_create calls)"

text \<open>
  The extraction of the result text as the specification words it: the fields are probed
  in the order given, and the first whose value passes the test of the source wins.
\<close>

fun firstNonEmpty :: "string list \<Rightarrow> jsval \<Rightarrow> jsval option" where
  "firstNonEmpty [] body = None"
| "firstNonEmpty (k # ks) body =
     (if truthy (js_get body k) then Some (js_get body k) else firstNonEmpty ks body)"

text \<open>
  The cause chain of a thrown value, outermost first, and the lines one level of it
  contributes at a given depth.
\<close>

fun causeChain :: "thrown \<Rightarrow> thrown list" where
  "causeChain (Error msg cd sc hn pt cs) =
     Error msg cd sc hn pt cs
       # (case cs of Some c \<Rightarrow> if truthy_thrown c then causeChain c else [] | None \<Rightarrow> [])"
| "causeChain (Thrown v) = [Thrown v]"

fun diagnostic :: "string \<Rightarrow> string option \<Rightarrow> string list" where
  "diagnostic label None = []"
| "diagnostic label (Some v) = (if v = [] then [] else [label @ v])"

fun levelLines :: "Builtins \<Rightarrow> nat \<Rightarrow> thrown \<Rightarrow> string list" where
  "levelLines B depth (Error msg cd sc hn pt cs) =
     (if depth = 0 then msg else ''Caused by: '' @ msg)
       # diagnostic ''  Code: '' cd
       @ diagnostic ''  Syscall: '' sc
       @ map (\<lambda>line. line @ '':'' @ (case pt of Some p \<Rightarrow> String B (JNum p) | None \<Rightarrow> []))
           (diagnostic ''  Host: '' hn)"
| "levelLines B depth (Thrown v) =
     [if v \<noteq> JNull \<and> typeof_object v then JSON_stringify B v else String B v]"

definition flattened :: "Builtins \<Rightarrow> nat \<Rightarrow> thrown \<Rightarrow> string list" where
  "flattened B depth e =
     concat (map (\<lambda>(d, level). levelLines B d level) (zip [depth..<4] (causeChain e)))"

section \<open>A scripted client\<close>

text \<open>
  A client for concrete runs: its state is the list of replies still to come, and every
  call takes the next one. The built-in conversions are stubs.
\<close>

type_synonym script = "(thrown + jsobject) list"

definition scriptedCall :: "script \<Rightarrow> (thrown + jsobject) \<times> script" where
  "scriptedCall script =
     (case script of
        [] \<Rightarrow> (Inl (Thrown (JStr ''no reply left'')), [])
      | reply # rest \<Rightarrow> (reply, rest))"

definition scriptedClient :: "script OpencodeClient" where
  "scriptedClient =
     \<lparr>session_create = (\<lambda>title. scriptedCall),
      session_prompt = (\<lambda>sessionId text. scriptedCall),
      session_delete = (\<lambda>sessionId. scriptedCall)\<rparr>"

definition scriptedOpencode :: "Config \<Rightarrow> script \<Rightarrow> (thrown + script Opencode) \<times> script" where
  "scriptedOpencode config script =
     (Inr \<lparr>opencode_client = scriptedClient, opencode_close = None\<rparr>, script)"

definition failingOpencode :: "Config \<Rightarrow> script \<Rightarrow> (thrown + script Opencode) \<times> script" where
  "failingOpencode config script =
     (Inl (Error ''spawn opencode ENOENT'' (Some ''ENOENT'') (Some ''spawn opencode'')
             None None None), script)"

definition stubBuiltins :: Builtins where
  "stubBuiltins =
     \<lparr>JSON_stringify = (\<lambda>v. ''<json>''),
      String = (\<lambda>v. case v of JStr text \<Rightarrow> text | _ \<Rightarrow> ''<string>'')\<rparr>"

definition sessionCreated :: "thrown + jsobject" where
  "sessionCreated = Inr [(''data'', JObj [(''id'', JStr ''ses_1'')])]"

definition promptAnswered :: "thrown + jsobject" where
  "promptAnswered = Inr [(''data'', JObj [(''text'', JStr ''done'')])]"

definition toolFailed :: "thrown + jsobject" where
  "toolFailed = Inr [(''error'', JObj [(''name'', JStr ''MessageAbortedError'')])]"

definition sessionDeleted :: "thrown + jsobject" where
  "sessionDeleted = Inr [(''data'', JBool True)]"

definition connectionRefused :: "thrown + jsobject" where
  "connectionRefused =
     Inl (Error ''fetch failed'' None None None None
            (Some (Error ''connect ECONNREFUSED'' (Some ''ECONNREFUSED'') (Some ''connect'')
                     (Some ''localhost'') (Some 4096) None)))"

definition threePrompts :: "PromptEntry list" where
  "threePrompts =
     [\<lparr>name = ''prompt-1'', content = ''First prompt''\<rparr>,
      \<lparr>name = ''prompt-2'', content = ''Second prompt''\<rparr>,
      \<lparr>name = ''prompt-3'', content = ''Third prompt''\<rparr>]"

text \<open>Three prompts of which the second gets a tool error.\<close>

definition toolErrorScript :: script where
  "toolErrorScript =
     [sessionCreated, promptAnswered, sessionDeleted,
      sessionCreated, toolFailed, sessionDeleted,
      sessionCreated, promptAnswered, sessionDeleted]"

text \<open>Three prompts of which the second finds the server gone.\<close>

definition sdkErrorScript :: script where
  "sdkErrorScript =
     [sessionCreated, promptAnswered, sessionDeleted,
      connectionRefused,
      sessionCreated, promptAnswered, sessionDeleted]"

section \<open>The loop, one prompt at a time\<close>

lemma outcomes_Nil [simp]: "outcomes k [] = 0"
  by (simp add: outcomes_def)

lemma outcomes_Cons [simp]:
  "outcomes k (r # rs) = (if errorType r = k then 1 else 0) + outcomes k rs"
  by (simp add: outcomes_def)

lemma outcomes_total:
  "outcomes ERROR_TYPE_NONE rs + outcomes ERROR_TYPE_TOOL rs + outcomes ERROR_TYPE_SDK rs
     = length rs"
proof (induction rs)
  case Nil
  show ?case by simp
next
  case (Cons r rs)
  then show ?case by (cases "errorType r") simp_all
qed

lemma attempted_runPrompt:
  "runPrompt B client prompt s = (result, calls, s') \<Longrightarrow> attempted calls = 1"
  by (auto simp: runPrompt_def tryBlock_def finallyBlock_def attempted_def Let_def
      split: prod.splits sum.splits if_splits)

lemma promptLoop_break:
  assumes "runPrompt B client (content p) s = (r, cs, s1)" and "stops options r"
  shows "promptLoop B client options (p # ps) c s = (tally options r c, [r], cs, s1)"
  using assms by (cases "errorType r") (auto simp: stops_def tally_def Let_def)

lemma promptLoop_next:
  assumes "runPrompt B client (content p) s = (r, cs, s1)" and "\<not> stops options r"
  shows "promptLoop B client options (p # ps) c s
           = logged r cs (promptLoop B client options ps (tally options r c) s1)"
  using assms by (cases "errorType r") (auto simp: stops_def tally_def Let_def)

lemma tally_counts:
  "sdkErrors (tally options r c) = sdkErrors c + (if errorType r = ERROR_TYPE_SDK then 1 else 0)"
  "toolErrors (tally options r c) = toolErrors c + (if errorType r = ERROR_TYPE_TOOL then 1 else 0)"
  "completed (tally options r c) = completed c
     + (if errorType r = ERROR_TYPE_NONE then 1 else 0)
     + (if errorType r = ERROR_TYPE_TOOL \<and> \<not> stopOnToolError options then 1 else 0)"
  by (cases "errorType r"; simp add: tally_def)+

lemma promptLoop_counts:
  "promptLoop B client options ps c s = (summary, results, calls, s') \<Longrightarrow>
     sdkErrors summary = sdkErrors c + outcomes ERROR_TYPE_SDK results
     \<and> toolErrors summary = toolErrors c + outcomes ERROR_TYPE_TOOL results
     \<and> completed summary = completed c + outcomes ERROR_TYPE_NONE results
         + (if stopOnToolError options then 0 else outcomes ERROR_TYPE_TOOL results)"
proof (induction ps arbitrary: c s summary results calls s')
  case Nil
  then show ?case by auto
next
  case (Cons p ps)
  obtain r cs s1 where rp: "runPrompt B client (content p) s = (r, cs, s1)"
    by (cases "runPrompt B client (content p) s") auto
  show ?case
  proof (cases "stops options r")
    case True
    from Cons.prems show ?thesis
      unfolding promptLoop_break [OF rp True] by (auto simp: tally_counts)
  next
    case False
    obtain sm2 rs2 cs2 s2 where rest:
      "promptLoop B client options ps (tally options r c) s1 = (sm2, rs2, cs2, s2)"
      by (metis prod_cases4)
    from Cons.IH [OF rest] Cons.prems show ?thesis
      unfolding promptLoop_next [OF rp False] rest by (auto simp: tally_counts logged_def)
  qed
qed

lemma promptLoop_progress:
  "promptLoop B client options ps c s = (summary, results, calls, s') \<Longrightarrow>
     length results \<le> length ps
     \<and> (\<forall>r \<in> set (butlast results). \<not> stops options r)
     \<and> (length results < length ps \<longrightarrow> results \<noteq> [] \<and> stops options (last results))
     \<and> attempted calls = length results"
proof (induction ps arbitrary: c s summary results calls s')
  case Nil
  then show ?case by (auto simp: attempted_def)
next
  case (Cons p ps)
  obtain r cs s1 where rp: "runPrompt B client (content p) s = (r, cs, s1)"
    by (cases "runPrompt B client (content p) s") auto
  note one = attempted_runPrompt [OF rp]
  show ?case
  proof (cases "stops options r")
    case True
    from Cons.prems one True show ?thesis
      unfolding promptLoop_break [OF rp True] by auto
  next
    case False
    obtain sm2 rs2 cs2 s2 where rest:
      "promptLoop B client options ps (tally options r c) s1 = (sm2, rs2, cs2, s2)"
      by (metis prod_cases4)
    from Cons.IH [OF rest] Cons.prems one False show ?thesis
      unfolding promptLoop_next [OF rp False] rest
      by (auto simp: logged_def attempted_def split: if_splits)
  qed
qed

text \<open>
  A run over \<open>pre @ post\<close> whose part over \<open>pre\<close> met no stopping result goes on over
  \<open>post\<close> with the counters and the client state that part left.
\<close>

lemma promptLoop_append:
  "promptLoop B client options pre c s = (c1, rs1, cs1, s1) \<Longrightarrow>
   \<forall>r \<in> set rs1. \<not> stops options r \<Longrightarrow>
   promptLoop B client options (pre @ post) c s
     = (case promptLoop B client options post c1 s1 of
          (c2, rs2, cs2, s2) \<Rightarrow> (c2, rs1 @ rs2, cs1 @ cs2, s2))"
proof (induction pre arbitrary: c s c1 rs1 cs1 s1)
  case Nil
  then show ?case by (auto split: prod.splits)
next
  case (Cons p pre)
  obtain r cs sa where rp: "runPrompt B client (content p) s = (r, cs, sa)"
    by (cases "runPrompt B client (content p) s") auto
  show ?case
  proof (cases "stops options r")
    case True
    from Cons.prems(1) have "rs1 = [r]"
      unfolding promptLoop_break [OF rp True] by simp
    with Cons.prems(2) True show ?thesis by simp
  next
    case False
    obtain sm2 rs2 cs2 s2 where rest:
      "promptLoop B client options pre (tally options r c) sa = (sm2, rs2, cs2, s2)"
      by (metis prod_cases4)
    from Cons.prems have eqs: "c1 = sm2" "rs1 = r # rs2" "cs1 = cs @ cs2" "s1 = s2"
      unfolding promptLoop_next [OF rp False] rest by (auto simp: logged_def)
    with Cons.prems(2) have "\<forall>r \<in> set rs2. \<not> stops options r" by simp
    from Cons.IH [OF rest this] eqs show ?thesis
      using promptLoop_next [OF rp False, of "pre @ post" c]
      by (auto simp: logged_def split: prod.splits)
  qed
qed

section \<open>The run as a whole\<close>

text \<open>
  Once \<^verbatim>\<open>createOpencode\<close> has resolved, the summary and the results of
  \<^verbatim>\<open>runPromptsSequential\<close> are those of the loop on the client of the instance; closing the
  instance adds no request for a session.
\<close>

lemma runPromptsSequential_created:
  assumes "createOpencode (buildConfig options) s = (Inr opencode, s1)"
    and "runPromptsSequential B createOpencode prompts options s = (summary, results, calls, s')"
  shows "\<exists>calls0 s2.
           promptLoop B (opencode_client opencode) options prompts
             \<lparr>completed = 0, toolErrors = 0, sdkErrors = 0\<rparr> s1 = (summary, results, calls0, s2)
           \<and> attempted calls = attempted calls0"
  using assms
  by (auto simp: runPromptsSequential_def attempted_def split: prod.splits option.splits)

text \<open>The variant that is handed its client computes the same summary and results.\<close>

lemma runPromptsSequential_variants_agree:
  assumes "createOpencode (buildConfig options) s = (Inr opencode, s1)"
  shows "fst (runPromptsSequential B createOpencode prompts options s)
           = fst (runPromptsSequential_client B (opencode_client opencode) prompts options s1)
         \<and> fst (snd (runPromptsSequential B createOpencode prompts options s))
           = fst (snd (runPromptsSequential_client B (opencode_client opencode) prompts options s1))"
  using assms
  by (auto simp: runPromptsSequential_def runPromptsSequential_client_def
      split: prod.splits option.splits)

text \<open>The scripted client and the two scripted instances, at work.\<close>

lemma scriptedClient_reply:
  "session_create scriptedClient title (reply # rest) = (reply, rest)"
  "session_prompt scriptedClient sessionId text (reply # rest) = (reply, rest)"
  "session_delete scriptedClient sessionId (reply # rest) = (reply, rest)"
  by (simp_all add: scriptedClient_def scriptedCall_def)

lemma scriptedOpencode_created:
  "scriptedOpencode (buildConfig options) script
     = (Inr \<lparr>opencode_client = scriptedClient, opencode_close = None\<rparr>, script)"
  by (simp add: scriptedOpencode_def)

lemma failingOpencode_throws:
  "failingOpencode (buildConfig options) script
     = (Inl (Error ''spawn opencode ENOENT'' (Some ''ENOENT'') (Some ''spawn opencode'')
               None None None), script)"
  by (simp add: failingOpencode_def)

section \<open>The format of a thrown value\<close>

text \<open>
  The recursion of \<^verbatim>\<open>extractError\<close> with its depth counter visits the levels of the cause
  chain that fall at depths below 4, and pushes the lines of each.
\<close>

lemma extractError_flattened: "extractError B e depth = flattened B depth e"
proof (induction B e depth rule: extractError.induct)
  case (1 B msg cd sc hn pt cs depth)
  show ?case
  proof (cases "depth > 3")
    case True
    then show ?thesis by (simp add: flattened_def)
  next
    case False
    then have upt: "[depth..<4] = depth # [depth + 1..<4]"
      by (simp add: upt_conv_Cons)
    have diag: "(case x of Some c \<Rightarrow> if truthy_str x then [label @ c] else [] | None \<Rightarrow> [])
        = diagnostic label x" for x label
      by (cases x) auto
    have host: "(case hn of
             Some h \<Rightarrow>
               if truthy_str hn
               then [''  Host: '' @ h @ '':''
                       @ (case pt of Some p \<Rightarrow> String B (JNum p) | None \<Rightarrow> [])]
               else []
           | None \<Rightarrow> [])
       = map (\<lambda>line. line @ '':'' @ (case pt of Some p \<Rightarrow> String B (JNum p) | None \<Rightarrow> []))
           (diagnostic ''  Host: '' hn)"
      by (cases hn) auto
    from False 1 show ?thesis
      unfolding flattened_def
      by (simp add: upt diag host split: option.splits del: upt.simps)
  qed
next
  case (2 B v depth)
  show ?case
  proof (cases "depth > 3")
    case True
    then show ?thesis by (simp add: flattened_def)
  next
    case False
    then have upt: "[depth..<4] = depth # [depth + 1..<4]"
      by (simp add: upt_conv_Cons)
    from False show ?thesis
      unfolding flattened_def by (simp add: upt del: upt.simps)
  qed
qed

section \<open>The claims\<close>

text \<open>
  C1, as amended. On a run whose instance was created, \<^verbatim>\<open>sdkErrors\<close> and \<^verbatim>\<open>toolErrors\<close>
  count the attempted prompts of those two kinds, and \<^verbatim>\<open>completed\<close> counts the
  successful ones and, when \<^verbatim>\<open>stopOnToolError\<close> is false, the ones with a tool error as well.
  So the three counters add up to the number of prompts attempted plus, when
  \<^verbatim>\<open>stopOnToolError\<close> is false, \<^verbatim>\<open>toolErrors\<close>. The number attempted (the results, one for
  each call of \<^verbatim>\<open>runPrompt\<close>, which is also the number of sessions asked for) is at most
  the number of prompts; it is that number when no result stopped the loop, and it is less
  only when the last result did.
\<close>

theorem summary_accounts_for_attempts:
  assumes "createOpencode (buildConfig options) s = (Inr opencode, s1)"
    and "runPromptsSequential B createOpencode prompts options s = (summary, results, calls, s')"
  shows "attempted calls = length results
     \<and> sdkErrors summary = outcomes ERROR_TYPE_SDK results
     \<and> toolErrors summary = outcomes ERROR_TYPE_TOOL results
     \<and> completed summary
         = outcomes ERROR_TYPE_NONE results
             + (if stopOnToolError options then 0 else outcomes ERROR_TYPE_TOOL results)
     \<and> completed summary + toolErrors summary + sdkErrors summary
         = length results + (if stopOnToolError options then 0 else toolErrors summary)
     \<and> length results \<le> length prompts
     \<and> ((\<forall>r \<in> set results. \<not> stops options r) \<longrightarrow> length results = length prompts)
     \<and> (length results < length prompts \<longrightarrow> results \<noteq> [] \<and> stops options (last results))"
proof -
  from runPromptsSequential_created [OF assms] obtain calls0 s2 where
    loop: "promptLoop B (opencode_client opencode) options prompts
             \<lparr>completed = 0, toolErrors = 0, sdkErrors = 0\<rparr> s1 = (summary, results, calls0, s2)"
    and att: "attempted calls = attempted calls0"
    by blast
  note counts = promptLoop_counts [OF loop] and progress = promptLoop_progress [OF loop]
  have a: "attempted calls = length results"
    using att progress by simp
  have b: "completed summary + toolErrors summary + sdkErrors summary
         = length results + (if stopOnToolError options then 0 else toolErrors summary)"
    using counts outcomes_total [of results] by (simp split: if_splits)
  have c: "length results \<le> length prompts"
    using progress by simp
  have e: "length results < length prompts \<longrightarrow> results \<noteq> [] \<and> stops options (last results)"
    using progress by simp
  have d: "(\<forall>r \<in> set results. \<not> stops options r) \<longrightarrow> length results = length prompts"
    using c e by (metis last_in_set le_neq_implies_less)
  from a counts b c d e show ?thesis by simp
qed

text \<open>
  Two runs of three prompts under the default policy. When the second prompt finds the
  server gone, two prompts are attempted and the counters add up to two. When the second
  prompt gets a tool error, no result stops the loop, three prompts are attempted, and the
  counters add up to three plus the one tool error.
\<close>

theorem summary_accounts_for_attempts_witness:
  "attempted (fst (snd (snd (runPromptsSequential stubBuiltins scriptedOpencode threePrompts
       defaultOptions sdkErrorScript)))) = 2
   \<and> length (fst (snd (runPromptsSequential stubBuiltins scriptedOpencode threePrompts
       defaultOptions sdkErrorScript))) = 2
   \<and> fst (runPromptsSequential stubBuiltins scriptedOpencode threePrompts
       defaultOptions sdkErrorScript) = \<lparr>completed = 1, toolErrors = 0, sdkErrors = 1\<rparr>
   \<and> length threePrompts = 3
   \<and> stops defaultOptions (last (fst (snd (runPromptsSequential stubBuiltins scriptedOpencode
       threePrompts defaultOptions sdkErrorScript))))
   \<and> length (fst (snd (runPromptsSequential stubBuiltins scriptedOpencode threePrompts
       defaultOptions toolErrorScript))) = 3
   \<and> fst (runPromptsSequential stubBuiltins scriptedOpencode threePrompts
       defaultOptions toolErrorScript) = \<lparr>completed = 3, toolErrors = 1, sdkErrors = 0\<rparr>"
proof -
  let ?run = "runPromptsSequential stubBuiltins scriptedOpencode threePrompts
       defaultOptions sdkErrorScript"
  let ?run' = "runPromptsSequential stubBuiltins scriptedOpencode threePrompts
       defaultOptions toolErrorScript"
  have run: "?run = (fst ?run, fst (snd ?run), fst (snd (snd ?run)), snd (snd (snd ?run)))"
    by simp
  have run': "?run' = (fst ?run', fst (snd ?run'), fst (snd (snd ?run')), snd (snd (snd ?run')))"
    by simp
  have less: "length (fst (snd ?run)) < length threePrompts"
    by code_simp
  have summary: "fst ?run = \<lparr>completed = 1, toolErrors = 0, sdkErrors = 1\<rparr>"
    by code_simp
  have two: "length (fst (snd ?run)) = 2"
    by code_simp
  have three: "length threePrompts = 3"
    by code_simp
  have none: "\<forall>r \<in> set (fst (snd ?run')). \<not> stops defaultOptions r"
    by code_simp
  have summary': "fst ?run' = \<lparr>completed = 3, toolErrors = 1, sdkErrors = 0\<rparr>"
    by code_simp
  from summary_accounts_for_attempts [where createOpencode = scriptedOpencode
      and options = defaultOptions and s = sdkErrorScript and B = stubBuiltins
      and prompts = threePrompts, OF scriptedOpencode_created run]
    summary_accounts_for_attempts [where createOpencode = scriptedOpencode
      and options = defaultOptions and s = toolErrorScript and B = stubBuiltins
      and prompts = threePrompts, OF scriptedOpencode_created run']
    less summary two three none summary'
  show ?thesis by simp
qed

text \<open>
  C1, as the specification states it, fails on the second of these runs: all three prompts
  are attempted, and the counters add up to four.
\<close>

theorem summary_sum_exceeds_attempts:
  "completed (fst (runPromptsSequential stubBuiltins scriptedOpencode threePrompts
       defaultOptions toolErrorScript))
   + toolErrors (fst (runPromptsSequential stubBuiltins scriptedOpencode threePrompts
       defaultOptions toolErrorScript))
   + sdkErrors (fst (runPromptsSequential stubBuiltins scriptedOpencode threePrompts
       defaultOptions toolErrorScript)) = 4
   \<and> attempted (fst (snd (snd (runPromptsSequential stubBuiltins scriptedOpencode threePrompts
       defaultOptions toolErrorScript)))) = 3
   \<and> length threePrompts = 3"
  by code_simp

text \<open>
  C2. With \<^verbatim>\<open>stopOnSdkError\<close> true: a result of kind SDK can only be the last result of
  the loop; and when the prompts before \<open>p\<close> have all run without stopping the loop and
  \<open>p\<close> itself ends with an SDK error, the loop returns right there, with \<^verbatim>\<open>sdkErrors\<close> one
  higher, \<^verbatim>\<open>completed\<close> as it was before \<open>p\<close>, and the client in the state \<open>p\<close> left it in,
  whatever prompts follow.
\<close>

theorem sdk_error_ends_run:
  assumes "stopOnSdkError options"
  shows "(promptLoop B client options prompts c s = (summary, results, calls, s')
            \<longrightarrow> (\<forall>i<length results. errorType (results ! i) = ERROR_TYPE_SDK
                    \<longrightarrow> Suc i = length results))
       \<and> (promptLoop B client options pre c s = (c1, rs1, cs1, s1)
            \<longrightarrow> (\<forall>x \<in> set rs1. \<not> stops options x)
            \<longrightarrow> runPrompt B client (content p) s1 = (r, cs2, s2)
            \<longrightarrow> errorType r = ERROR_TYPE_SDK
            \<longrightarrow> promptLoop B client options (pre @ p # rest) c s
                 = (c1\<lparr>sdkErrors := sdkErrors c1 + 1\<rparr>, rs1 @ [r], cs1 @ cs2, s2))"
proof (intro conjI impI allI)
  fix i
  assume loop: "promptLoop B client options prompts c s = (summary, results, calls, s')"
    and i: "i < length results" and sdk: "errorType (results ! i) = ERROR_TYPE_SDK"
  from sdk assms have "stops options (results ! i)"
    by (simp add: stops_def)
  moreover from promptLoop_progress [OF loop]
  have "\<forall>r \<in> set (butlast results). \<not> stops options r" by simp
  ultimately have "results ! i \<notin> set (butlast results)" by blast
  then have "\<not> i < length (butlast results)"
    by (metis nth_butlast nth_mem)
  with i show "Suc i = length results" by simp
next
  assume pre: "promptLoop B client options pre c s = (c1, rs1, cs1, s1)"
    and quiet: "\<forall>x \<in> set rs1. \<not> stops options x"
    and run: "runPrompt B client (content p) s1 = (r, cs2, s2)"
    and sdk: "errorType r = ERROR_TYPE_SDK"
  from sdk assms have "stops options r"
    by (simp add: stops_def)
  from promptLoop_break [OF run this]
  have "promptLoop B client options (p # rest) c1 s1 = (tally options r c1, [r], cs2, s2)" .
  moreover from sdk have "tally options r c1 = c1\<lparr>sdkErrors := sdkErrors c1 + 1\<rparr>"
    by (simp add: tally_def)
  ultimately show "promptLoop B client options (pre @ p # rest) c s
      = (c1\<lparr>sdkErrors := sdkErrors c1 + 1\<rparr>, rs1 @ [r], cs1 @ cs2, s2)"
    using promptLoop_append [OF pre quiet, of "p # rest"] by simp
qed

text \<open>
  The scenario of the specification: three prompts, the second finds the server gone,
  default policy. The summary is 1, 0, 1, the exit code is 1, and the replies scripted for
  the third prompt are still there at the end.
\<close>

theorem sdk_error_ends_run_witness:
  "stopOnSdkError defaultOptions
   \<and> fst (promptLoop stubBuiltins scriptedClient defaultOptions threePrompts
        \<lparr>completed = 0, toolErrors = 0, sdkErrors = 0\<rparr> sdkErrorScript)
       = \<lparr>completed = 1, toolErrors = 0, sdkErrors = 1\<rparr>
   \<and> map errorType (fst (snd (promptLoop stubBuiltins scriptedClient defaultOptions threePrompts
        \<lparr>completed = 0, toolErrors = 0, sdkErrors = 0\<rparr> sdkErrorScript)))
       = [ERROR_TYPE_NONE, ERROR_TYPE_SDK]
   \<and> snd (snd (snd (promptLoop stubBuiltins scriptedClient defaultOptions threePrompts
        \<lparr>completed = 0, toolErrors = 0, sdkErrors = 0\<rparr> sdkErrorScript)))
       = [sessionCreated, promptAnswered, sessionDeleted]
   \<and> fst (runPromptsSequential stubBuiltins scriptedOpencode threePrompts defaultOptions
        sdkErrorScript) = \<lparr>completed = 1, toolErrors = 0, sdkErrors = 1\<rparr>
   \<and> main_exitCode (fst (runPromptsSequential stubBuiltins scriptedOpencode threePrompts
        defaultOptions sdkErrorScript)) = 1"
proof -
  let ?pre = "[\<lparr>name = ''prompt-1'', content = ''First prompt''\<rparr>]"
  let ?p = "\<lparr>name = ''prompt-2'', content = ''Second prompt''\<rparr>"
  let ?rest = "[\<lparr>name = ''prompt-3'', content = ''Third prompt''\<rparr>]"
  let ?zero = "\<lparr>completed = 0, toolErrors = 0, sdkErrors = 0\<rparr>"
  let ?L = "promptLoop stubBuiltins scriptedClient defaultOptions ?pre ?zero sdkErrorScript"
  let ?R = "runPrompt stubBuiltins scriptedClient (content ?p) (snd (snd (snd ?L)))"
  have opt: "stopOnSdkError defaultOptions"
    by (simp add: defaultOptions_def)
  have pre: "?L = (fst ?L, fst (snd ?L), fst (snd (snd ?L)), snd (snd (snd ?L)))"
    by simp
  have quiet: "\<forall>x \<in> set (fst (snd ?L)). \<not> stops defaultOptions x"
    by code_simp
  have run: "?R = (fst ?R, fst (snd ?R), snd (snd ?R))"
    by simp
  have sdk: "errorType (fst ?R) = ERROR_TYPE_SDK"
    by code_simp
  have split: "threePrompts = ?pre @ ?p # ?rest"
    by (simp add: threePrompts_def)
  have c1: "fst ?L = \<lparr>completed = 1, toolErrors = 0, sdkErrors = 0\<rparr>"
    by code_simp
  have rs1: "map errorType (fst (snd ?L)) = [ERROR_TYPE_NONE]"
    by code_simp
  have s2: "snd (snd ?R) = [sessionCreated, promptAnswered, sessionDeleted]"
    by code_simp
  have whole: "fst (runPromptsSequential stubBuiltins scriptedOpencode threePrompts
      defaultOptions sdkErrorScript)
      = fst (promptLoop stubBuiltins scriptedClient defaultOptions threePrompts ?zero
          sdkErrorScript)"
    by (simp add: runPromptsSequential_def scriptedOpencode_def split: prod.splits)
  from sdk_error_ends_run [OF opt, where B = stubBuiltins and client = scriptedClient
      and pre = ?pre and p = ?p and rest = ?rest and c = ?zero and s = sdkErrorScript]
    pre quiet run sdk
  have "promptLoop stubBuiltins scriptedClient defaultOptions (?pre @ ?p # ?rest) ?zero
          sdkErrorScript
        = ((fst ?L)\<lparr>sdkErrors := sdkErrors (fst ?L) + 1\<rparr>, fst (snd ?L) @ [fst ?R],
           fst (snd (snd ?L)) @ fst (snd ?R), snd (snd ?R))"
    by blast
  with opt split c1 rs1 s2 sdk whole show ?thesis
    by (simp add: main_exitCode_def)
qed

text \<open>
  C3. With \<^verbatim>\<open>stopOnToolError\<close> false: every result of kind tool error is counted in
  \<^verbatim>\<open>toolErrors\<close> and in \<^verbatim>\<open>completed\<close>; and when the prompts before \<open>p\<close> have all run
  without stopping the loop and \<open>p\<close> itself ends with a tool error, the loop goes on with
  the prompts after \<open>p\<close>, from both counters one higher.
\<close>

theorem tool_error_counts_as_completed:
  assumes "\<not> stopOnToolError options"
  shows "(promptLoop B client options prompts c s = (summary, results, calls, s')
            \<longrightarrow> toolErrors summary = toolErrors c + outcomes ERROR_TYPE_TOOL results
              \<and> completed summary
                  = completed c + outcomes ERROR_TYPE_NONE results
                      + outcomes ERROR_TYPE_TOOL results)
       \<and> (promptLoop B client options pre c s = (c1, rs1, cs1, s1)
            \<longrightarrow> (\<forall>x \<in> set rs1. \<not> stops options x)
            \<longrightarrow> runPrompt B client (content p) s1 = (r, cs2, s2)
            \<longrightarrow> errorType r = ERROR_TYPE_TOOL
            \<longrightarrow> promptLoop B client options (pre @ p # rest) c s
                 = (case promptLoop B client options rest
                           (c1\<lparr>toolErrors := toolErrors c1 + 1,
                               completed := completed c1 + 1\<rparr>) s2 of
                      (c3, rs3, cs3, s3) \<Rightarrow> (c3, rs1 @ r # rs3, cs1 @ cs2 @ cs3, s3)))"
proof (intro conjI impI)
  assume loop: "promptLoop B client options prompts c s = (summary, results, calls, s')"
  from promptLoop_counts [OF loop] assms
  show "toolErrors summary = toolErrors c + outcomes ERROR_TYPE_TOOL results" by simp
  from promptLoop_counts [OF loop] assms
  show "completed summary
      = completed c + outcomes ERROR_TYPE_NONE results + outcomes ERROR_TYPE_TOOL results"
    by simp
next
  assume pre: "promptLoop B client options pre c s = (c1, rs1, cs1, s1)"
    and quiet: "\<forall>x \<in> set rs1. \<not> stops options x"
    and run: "runPrompt B client (content p) s1 = (r, cs2, s2)"
    and tool: "errorType r = ERROR_TYPE_TOOL"
  from tool assms have "\<not> stops options r"
    by (simp add: stops_def)
  from promptLoop_next [OF run this]
  have "promptLoop B client options (p # rest) c1 s1
      = logged r cs2 (promptLoop B client options rest (tally options r c1) s2)" .
  moreover from tool assms
  have "tally options r c1
      = c1\<lparr>toolErrors := toolErrors c1 + 1, completed := completed c1 + 1\<rparr>"
    by (simp add: tally_def)
  ultimately show "promptLoop B client options (pre @ p # rest) c s
      = (case promptLoop B client options rest
                (c1\<lparr>toolErrors := toolErrors c1 + 1, completed := completed c1 + 1\<rparr>) s2 of
           (c3, rs3, cs3, s3) \<Rightarrow> (c3, rs1 @ r # rs3, cs1 @ cs2 @ cs3, s3))"
    using promptLoop_append [OF pre quiet, of "p # rest"]
    by (simp add: logged_def split: prod.splits)
qed

text \<open>
  The scenario of the specification: three prompts, the second gets a tool error, default
  policy. All three are attempted, the summary is 3, 1, 0 and the exit code is 2.
\<close>

theorem tool_error_counts_as_completed_witness:
  "\<not> stopOnToolError defaultOptions
   \<and> fst (promptLoop stubBuiltins scriptedClient defaultOptions threePrompts
        \<lparr>completed = 0, toolErrors = 0, sdkErrors = 0\<rparr> toolErrorScript)
       = \<lparr>completed = 3, toolErrors = 1, sdkErrors = 0\<rparr>
   \<and> map errorType (fst (snd (promptLoop stubBuiltins scriptedClient defaultOptions threePrompts
        \<lparr>completed = 0, toolErrors = 0, sdkErrors = 0\<rparr> toolErrorScript)))
       = [ERROR_TYPE_NONE, ERROR_TYPE_TOOL, ERROR_TYPE_NONE]
   \<and> snd (snd (snd (promptLoop stubBuiltins scriptedClient defaultOptions threePrompts
        \<lparr>completed = 0, toolErrors = 0, sdkErrors = 0\<rparr> toolErrorScript))) = []
   \<and> fst (runPromptsSequential stubBuiltins scriptedOpencode threePrompts defaultOptions
        toolErrorScript) = \<lparr>completed = 3, toolErrors = 1, sdkErrors = 0\<rparr>
   \<and> main_exitCode (fst (runPromptsSequential stubBuiltins scriptedOpencode threePrompts
        defaultOptions toolErrorScript)) = 2"
proof -
  let ?pre = "[\<lparr>name = ''prompt-1'', content = ''First prompt''\<rparr>]"
  let ?p = "\<lparr>name = ''prompt-2'', content = ''Second prompt''\<rparr>"
  let ?rest = "[\<lparr>name = ''prompt-3'', content = ''Third prompt''\<rparr>]"
  let ?zero = "\<lparr>completed = 0, toolErrors = 0, sdkErrors = 0\<rparr>"
  let ?L = "promptLoop stubBuiltins scriptedClient defaultOptions ?pre ?zero toolErrorScript"
  let ?R = "runPrompt stubBuiltins scriptedClient (content ?p) (snd (snd (snd ?L)))"
  let ?T = "promptLoop stubBuiltins scriptedClient defaultOptions ?rest
      ((fst ?L)\<lparr>toolErrors := toolErrors (fst ?L) + 1, completed := completed (fst ?L) + 1\<rparr>)
      (snd (snd ?R))"
  have opt: "\<not> stopOnToolError defaultOptions"
    by (simp add: defaultOptions_def)
  have pre: "?L = (fst ?L, fst (snd ?L), fst (snd (snd ?L)), snd (snd (snd ?L)))"
    by simp
  have quiet: "\<forall>x \<in> set (fst (snd ?L)). \<not> stops defaultOptions x"
    by code_simp
  have run: "?R = (fst ?R, fst (snd ?R), snd (snd ?R))"
    by simp
  have tool: "errorType (fst ?R) = ERROR_TYPE_TOOL"
    by code_simp
  have split: "threePrompts = ?pre @ ?p # ?rest"
    by (simp add: threePrompts_def)
  have rs1: "map errorType (fst (snd ?L)) = [ERROR_TYPE_NONE]"
    by code_simp
  have c3: "fst ?T = \<lparr>completed = 3, toolErrors = 1, sdkErrors = 0\<rparr>"
    by code_simp
  have rs3: "map errorType (fst (snd ?T)) = [ERROR_TYPE_NONE]"
    by code_simp
  have s3: "snd (snd (snd ?T)) = []"
    by code_simp
  have whole: "fst (runPromptsSequential stubBuiltins scriptedOpencode threePrompts
      defaultOptions toolErrorScript)
      = fst (promptLoop stubBuiltins scriptedClient defaultOptions threePrompts ?zero
          toolErrorScript)"
    by (simp add: runPromptsSequential_def scriptedOpencode_def split: prod.splits)
  from tool_error_counts_as_completed [OF opt, where B = stubBuiltins
      and client = scriptedClient and pre = ?pre and p = ?p and rest = ?rest and c = ?zero
      and s = toolErrorScript]
    pre quiet run tool
  have "promptLoop stubBuiltins scriptedClient defaultOptions (?pre @ ?p # ?rest) ?zero
          toolErrorScript
        = (case ?T of (c3, rs3, cs3, s3) \<Rightarrow>
             (c3, fst (snd ?L) @ fst ?R # rs3, fst (snd (snd ?L)) @ fst (snd ?R) @ cs3, s3))"
    by blast
  then have "promptLoop stubBuiltins scriptedClient defaultOptions (?pre @ ?p # ?rest) ?zero
          toolErrorScript
        = (fst ?T, fst (snd ?L) @ fst ?R # fst (snd ?T),
           fst (snd (snd ?L)) @ fst (snd ?R) @ fst (snd (snd ?T)), snd (snd (snd ?T)))"
    by (simp add: case_prod_beta)
  with opt split rs1 c3 rs3 s3 tool whole show ?thesis
    by (simp add: main_exitCode_def)
qed

text \<open>
  C4. The exit code is 1 when \<^verbatim>\<open>sdkErrors\<close> is positive, whatever \<^verbatim>\<open>toolErrors\<close> is;
  otherwise 2 when \<^verbatim>\<open>toolErrors\<close> is positive; otherwise 0.
\<close>

theorem exit_code_by_severity:
  "(sdkErrors summary > 0 \<longrightarrow> main_exitCode summary = 1)
   \<and> (sdkErrors summary = 0 \<and> toolErrors summary > 0 \<longrightarrow> main_exitCode summary = 2)
   \<and> (sdkErrors summary = 0 \<and> toolErrors summary = 0 \<longrightarrow> main_exitCode summary = 0)"
  by (simp add: main_exitCode_def)

text \<open>One summary for each case; in the first the tool errors outnumber the SDK errors.\<close>

theorem exit_code_by_severity_witness:
  "main_exitCode \<lparr>completed = 2, toolErrors = 5, sdkErrors = 1\<rparr> = 1
   \<and> main_exitCode \<lparr>completed = 3, toolErrors = 1, sdkErrors = 0\<rparr> = 2
   \<and> main_exitCode \<lparr>completed = 3, toolErrors = 0, sdkErrors = 0\<rparr> = 0"
  using exit_code_by_severity [of "\<lparr>completed = 2, toolErrors = 5, sdkErrors = 1\<rparr>"]
    exit_code_by_severity [of "\<lparr>completed = 3, toolErrors = 1, sdkErrors = 0\<rparr>"]
    exit_code_by_severity [of "\<lparr>completed = 3, toolErrors = 0, sdkErrors = 0\<rparr>"]
  by simp

text \<open>
  C5. What \<^verbatim>\<open>runPrompt\<close> returns, case by case. A response to the creation of the session
  with a truthy \<^verbatim>\<open>error\<close> or a falsy \<^verbatim>\<open>data\<close>: SDK error, and the text is
  \<^verbatim>\<open>Session creation failed: \<close> followed by the serialized error, or by
  \<^verbatim>\<open>Failed to create session\<close> when there is no error payload. A response to the prompt
  with a truthy \<^verbatim>\<open>error\<close>: tool error, and the text is the serialized error. A throw of
  either call: SDK error, and the text is \<^verbatim>\<open>SDK Error: \<close> followed by the formatted details.
\<close>

theorem runPrompt_classifies:
  "(session_create client (sessionTitle prompt) s = (Inr sessionResponse, s1)
      \<longrightarrow> truthy (js_prop sessionResponse ''error'') \<or> \<not> truthy (js_prop sessionResponse ''data'')
      \<longrightarrow> errorType (fst (runPrompt B client prompt s)) = ERROR_TYPE_SDK
          \<and> resultText (fst (runPrompt B client prompt s))
              = ''Session creation failed: ''
                  @ (if truthy (js_prop sessionResponse ''error'')
                     then JSON_stringify B (js_prop sessionResponse ''error'')
                     else ''Failed to create session''))
   \<and> (session_create client (sessionTitle prompt) s = (Inr sessionResponse, s1)
      \<longrightarrow> \<not> truthy (js_prop sessionResponse ''error'')
      \<longrightarrow> truthy (js_prop sessionResponse ''data'')
      \<longrightarrow> session_prompt client (js_get (js_prop sessionResponse ''data'') ''id'') prompt s1
            = (Inr promptResponse, s2)
      \<longrightarrow> truthy (js_prop promptResponse ''error'')
      \<longrightarrow> errorType (fst (runPrompt B client prompt s)) = ERROR_TYPE_TOOL
          \<and> resultText (fst (runPrompt B client prompt s))
              = JSON_stringify B (js_prop promptResponse ''error''))
   \<and> (session_create client (sessionTitle prompt) s = (Inl err, s1)
      \<longrightarrow> errorType (fst (runPrompt B client prompt s)) = ERROR_TYPE_SDK
          \<and> resultText (fst (runPrompt B client prompt s))
              = ''SDK Error: '' @ formatErrorDetails B err)
   \<and> (session_create client (sessionTitle prompt) s = (Inr sessionResponse, s1)
      \<longrightarrow> \<not> truthy (js_prop sessionResponse ''error'')
      \<longrightarrow> truthy (js_prop sessionResponse ''data'')
      \<longrightarrow> session_prompt client (js_get (js_prop sessionResponse ''data'') ''id'') prompt s1
            = (Inl err, s2)
      \<longrightarrow> errorType (fst (runPrompt B client prompt s)) = ERROR_TYPE_SDK
          \<and> resultText (fst (runPrompt B client prompt s))
              = ''SDK Error: '' @ formatErrorDetails B err)"
  by (simp add: runPrompt_def tryBlock_def catchBlock_def Let_def split: prod.splits)

text \<open>One run of the scripted client for each case, two for the first.\<close>

theorem runPrompt_classifies_witness:
  "errorType (fst (runPrompt stubBuiltins scriptedClient ''First prompt''
       [Inr [(''error'', JObj [(''name'', JStr ''UnknownError'')])]])) = ERROR_TYPE_SDK
   \<and> resultText (fst (runPrompt stubBuiltins scriptedClient ''First prompt''
       [Inr [(''error'', JObj [(''name'', JStr ''UnknownError'')])]]))
       = ''Session creation failed: <json>''
   \<and> errorType (fst (runPrompt stubBuiltins scriptedClient ''First prompt'' [Inr []]))
       = ERROR_TYPE_SDK
   \<and> resultText (fst (runPrompt stubBuiltins scriptedClient ''First prompt'' [Inr []]))
       = ''Session creation failed: Failed to create session''
   \<and> errorType (fst (runPrompt stubBuiltins scriptedClient ''First prompt''
       [sessionCreated, toolFailed, sessionDeleted])) = ERROR_TYPE_TOOL
   \<and> resultText (fst (runPrompt stubBuiltins scriptedClient ''First prompt''
       [sessionCreated, toolFailed, sessionDeleted])) = ''<json>''
   \<and> errorType (fst (runPrompt stubBuiltins scriptedClient ''First prompt''
       [connectionRefused])) = ERROR_TYPE_SDK
   \<and> errorType (fst (runPrompt stubBuiltins scriptedClient ''First prompt''
       [sessionCreated, connectionRefused, sessionDeleted])) = ERROR_TYPE_SDK"
proof -
  note defs = scriptedClient_reply js_prop_def stubBuiltins_def sessionCreated_def
    toolFailed_def connectionRefused_def
  let ?refused = "Error ''fetch failed'' None None None None
      (Some (Error ''connect ECONNREFUSED'' (Some ''ECONNREFUSED'') (Some ''connect'')
               (Some ''localhost'') (Some 4096) None))"
  have a: "errorType (fst (runPrompt stubBuiltins scriptedClient ''First prompt''
         [Inr [(''error'', JObj [(''name'', JStr ''UnknownError'')])]])) = ERROR_TYPE_SDK
     \<and> resultText (fst (runPrompt stubBuiltins scriptedClient ''First prompt''
         [Inr [(''error'', JObj [(''name'', JStr ''UnknownError'')])]]))
         = ''Session creation failed: <json>''"
    using runPrompt_classifies [where B = stubBuiltins
        and client = scriptedClient and prompt = "''First prompt''"
        and s = "[Inr [(''error'', JObj [(''name'', JStr ''UnknownError'')])]]"
        and sessionResponse = "[(''error'', JObj [(''name'', JStr ''UnknownError'')])]"
        and ?s1.0 = "[]",
        THEN conjunct1]
    by (simp add: defs)
  have b: "errorType (fst (runPrompt stubBuiltins scriptedClient ''First prompt'' [Inr []]))
         = ERROR_TYPE_SDK
     \<and> resultText (fst (runPrompt stubBuiltins scriptedClient ''First prompt'' [Inr []]))
         = ''Session creation failed: Failed to create session''"
    using runPrompt_classifies [where B = stubBuiltins
        and client = scriptedClient and prompt = "''First prompt''"
        and s = "[Inr []]" and sessionResponse = "[]" and ?s1.0 = "[]",
        THEN conjunct1]
    by (simp add: defs)
  have c: "errorType (fst (runPrompt stubBuiltins scriptedClient ''First prompt''
         [sessionCreated, toolFailed, sessionDeleted])) = ERROR_TYPE_TOOL
     \<and> resultText (fst (runPrompt stubBuiltins scriptedClient ''First prompt''
         [sessionCreated, toolFailed, sessionDeleted])) = ''<json>''"
    using runPrompt_classifies [where B = stubBuiltins
        and client = scriptedClient and prompt = "''First prompt''"
        and s = "[sessionCreated, toolFailed, sessionDeleted]"
        and sessionResponse = "[(''data'', JObj [(''id'', JStr ''ses_1'')])]"
        and ?s1.0 = "[toolFailed, sessionDeleted]"
        and promptResponse = "[(''error'', JObj [(''name'', JStr ''MessageAbortedError'')])]"
        and ?s2.0 = "[sessionDeleted]",
        THEN conjunct2, THEN conjunct1]
    by (simp add: defs)
  have d: "errorType (fst (runPrompt stubBuiltins scriptedClient ''First prompt''
         [connectionRefused])) = ERROR_TYPE_SDK"
    using runPrompt_classifies [where B = stubBuiltins and client = scriptedClient and prompt = "''First prompt''"
        and s = "[connectionRefused]" and err = ?refused and ?s1.0 = "[]",
        THEN conjunct2, THEN conjunct2, THEN conjunct1]
    by (simp add: defs)
  have e: "errorType (fst (runPrompt stubBuiltins scriptedClient ''First prompt''
         [sessionCreated, connectionRefused, sessionDeleted])) = ERROR_TYPE_SDK"
    using runPrompt_classifies [where B = stubBuiltins and client = scriptedClient and prompt = "''First prompt''"
        and s = "[sessionCreated, connectionRefused, sessionDeleted]"
        and sessionResponse = "[(''data'', JObj [(''id'', JStr ''ses_1'')])]"
        and ?s1.0 = "[connectionRefused, sessionDeleted]"
        and err = ?refused and ?s2.0 = "[sessionDeleted]",
        THEN conjunct2, THEN conjunct2, THEN conjunct2]
    by (simp add: defs)
  from a b c d e show ?thesis by blast
qed

text \<open>
  C6. When the creation of the session resolved to a response with no error, with data and
  with a truthy \<^verbatim>\<open>id\<close> (the test of the \<^verbatim>\<open>finally\<close> block for a session to be there), then
  whatever the prompt call does, the calls made are the creation, the prompt and the
  deletion of that session, and the client is left in the state the deletion leaves. The
  result does not depend on what the deletion does: it is the same for every deletion
  function, and it is what the \<^verbatim>\<open>try\<close> and \<^verbatim>\<open>catch\<close> blocks had produced.
\<close>

theorem session_always_released:
  assumes "session_create client (sessionTitle prompt) s = (Inr sessionResponse, s1)"
    and "\<not> truthy (js_prop sessionResponse ''error'')"
    and "truthy (js_prop sessionResponse ''data'')"
    and "sessionId = js_get (js_prop sessionResponse ''data'') ''id''"
    and "truthy sessionId"
  shows "fst (snd (runPrompt B client prompt s))
           = [SessionCreate (sessionTitle prompt), SessionPrompt sessionId prompt,
              SessionDelete sessionId]
     \<and> snd (snd (runPrompt B client prompt s))
           = snd (session_delete client sessionId
                    (snd (session_prompt client sessionId prompt s1)))
     \<and> (\<forall>delete. fst (runPrompt B (client\<lparr>session_delete := delete\<rparr>) prompt s)
           = fst (runPrompt B client prompt s))
     \<and> fst (runPrompt B client prompt s) = catchBlock B (fst (tryBlock B client prompt s))"
  using assms
  by (auto simp: runPrompt_def tryBlock_def finallyBlock_def Let_def
      split: prod.splits sum.splits)

text \<open>
  The prompt call throws and then the deletion throws as well: the session is deleted all
  the same, and the result is the one of a run whose deletion succeeds.
\<close>

theorem session_always_released_witness:
  "fst (snd (runPrompt stubBuiltins scriptedClient ''First prompt''
       [sessionCreated, connectionRefused, connectionRefused]))
     = [SessionCreate ''Prompt: First prompt...'', SessionPrompt (JStr ''ses_1'') ''First prompt'',
        SessionDelete (JStr ''ses_1'')]
   \<and> snd (snd (runPrompt stubBuiltins scriptedClient ''First prompt''
       [sessionCreated, connectionRefused, connectionRefused])) = []
   \<and> fst (runPrompt stubBuiltins
       (scriptedClient\<lparr>session_delete := (\<lambda>sessionId script. (sessionDeleted, script))\<rparr>)
       ''First prompt'' [sessionCreated, connectionRefused, connectionRefused])
     = fst (runPrompt stubBuiltins scriptedClient ''First prompt''
       [sessionCreated, connectionRefused, connectionRefused])"
  using session_always_released [where B = stubBuiltins and client = scriptedClient
      and prompt = "''First prompt''"
      and s = "[sessionCreated, connectionRefused, connectionRefused]"
      and sessionResponse = "[(''data'', JObj [(''id'', JStr ''ses_1'')])]"
      and ?s1.0 = "[connectionRefused, connectionRefused]"
      and sessionId = "JStr ''ses_1''"]
  by (simp add: scriptedClient_reply js_prop_def sessionCreated_def sessionTitle_def)

text \<open>
  C7. When \<^verbatim>\<open>createOpencode\<close> throws, \<^verbatim>\<open>runPromptsSequential\<close> of \<^verbatim>\<open>cli.ts\<close> returns with no
  prompt attempted and no call made on any client, and its summary counts every prompt of
  the input as an SDK error.
\<close>

theorem setup_failure_reports_all_prompts:
  assumes "createOpencode (buildConfig options) s = (Inl err, s1)"
  shows "runPromptsSequential B createOpencode prompts options s
           = (\<lparr>completed = 0, toolErrors = 0, sdkErrors = length prompts\<rparr>, [], [], s1)"
  using assms by (simp add: runPromptsSequential_def)

theorem setup_failure_reports_all_prompts_witness:
  "runPromptsSequential stubBuiltins failingOpencode threePrompts defaultOptions toolErrorScript
     = (\<lparr>completed = 0, toolErrors = 0, sdkErrors = 3\<rparr>, [], [], toolErrorScript)
   \<and> threePrompts \<noteq> []"
  using setup_failure_reports_all_prompts [where createOpencode = failingOpencode
      and options = defaultOptions and s = toolErrorScript and B = stubBuiltins
      and prompts = threePrompts, OF failingOpencode_throws]
  by (simp add: threePrompts_def)

text \<open>
  C8. When the prompt call resolved to a response with no error, the result is a success,
  and its text comes from the body \<^verbatim>\<open>data\<close> of the response. For a body that is an object
  (or an array), the fields \<^verbatim>\<open>text\<close>, \<^verbatim>\<open>content\<close>, \<^verbatim>\<open>message\<close>, \<^verbatim>\<open>result\<close> are probed in
  that order, and the first with a truthy value (for a string: a non-empty one) gives the
  text; when there is none, the text is the serialization of the body. For any other body
  the text is the serialization of the whole response.
\<close>

theorem result_text_priority:
  assumes "session_create client (sessionTitle prompt) s = (Inr sessionResponse, s1)"
    and "\<not> truthy (js_prop sessionResponse ''error'')"
    and "truthy (js_prop sessionResponse ''data'')"
    and "session_prompt client (js_get (js_prop sessionResponse ''data'') ''id'') prompt s1
           = (Inr promptResponse, s2)"
    and "\<not> truthy (js_prop promptResponse ''error'')"
    and "body = js_prop promptResponse ''data''"
  shows "success (fst (runPrompt B client prompt s))
     \<and> errorType (fst (runPrompt B client prompt s)) = ERROR_TYPE_NONE
     \<and> resultText (fst (runPrompt B client prompt s))
         = (if truthy body \<and> typeof_object body
            then (case firstNonEmpty [''text'', ''content'', ''message'', ''result''] body of
                    Some v \<Rightarrow> String B v
                  | None \<Rightarrow> JSON_stringify B body)
            else JSON_stringify B (JObj promptResponse))"
proof -
  have probe: "(js_in k v \<and> truthy (js_get v k)) = truthy (js_get v k)" for k v
    by (cases v) (auto simp: js_prop_def split: option.splits)
  from assms have "fst (runPrompt B client prompt s)
      = \<lparr>success = True, errorType = ERROR_TYPE_NONE,
         resultText = extractResultText B promptResponse\<rparr>"
    by (simp add: runPrompt_def tryBlock_def catchBlock_def Let_def split: prod.splits)
  moreover from assms(6) have "extractResultText B promptResponse
      = (if truthy body \<and> typeof_object body
         then (case firstNonEmpty [''text'', ''content'', ''message'', ''result''] body of
                 Some v \<Rightarrow> String B v
               | None \<Rightarrow> JSON_stringify B body)
         else JSON_stringify B (JObj promptResponse))"
    by (simp add: extractResultText_def Let_def probe)
  ultimately show ?thesis by simp
qed

text \<open>
  A body whose \<^verbatim>\<open>text\<close> is empty and whose \<^verbatim>\<open>content\<close> and \<^verbatim>\<open>message\<close> are not: the
  content wins. A body with none of the four fields: the serialization of the body.
\<close>

theorem result_text_priority_witness:
  "resultText (fst (runPrompt stubBuiltins scriptedClient ''First prompt''
       [sessionCreated,
        Inr [(''data'', JObj [(''text'', JStr []), (''content'', JStr ''from content''),
                              (''message'', JStr ''from message'')])],
        sessionDeleted])) = ''from content''
   \<and> resultText (fst (runPrompt stubBuiltins scriptedClient ''First prompt''
       [sessionCreated, Inr [(''data'', JObj [(''parts'', JArr [])])], sessionDeleted]))
       = ''<json>''"
proof -
  note defs = scriptedClient_reply js_prop_def stubBuiltins_def sessionCreated_def
  have a: "resultText (fst (runPrompt stubBuiltins scriptedClient ''First prompt''
       [sessionCreated,
        Inr [(''data'', JObj [(''text'', JStr []), (''content'', JStr ''from content''),
                              (''message'', JStr ''from message'')])],
        sessionDeleted])) = ''from content''"
    using result_text_priority [where B = stubBuiltins and client = scriptedClient
        and prompt = "''First prompt''"
        and s = "[sessionCreated,
          Inr [(''data'', JObj [(''text'', JStr []), (''content'', JStr ''from content''),
                                (''message'', JStr ''from message'')])],
          sessionDeleted]"
        and sessionResponse = "[(''data'', JObj [(''id'', JStr ''ses_1'')])]"
        and ?s1.0 = "[Inr [(''data'', JObj [(''text'', JStr []),
                                (''content'', JStr ''from content''),
                                (''message'', JStr ''from message'')])],
          sessionDeleted]"
        and promptResponse = "[(''data'', JObj [(''text'', JStr []),
                                (''content'', JStr ''from content''),
                                (''message'', JStr ''from message'')])]"
        and ?s2.0 = "[sessionDeleted]"
        and body = "JObj [(''text'', JStr []), (''content'', JStr ''from content''),
                          (''message'', JStr ''from message'')]"]
    by (simp add: defs)
  have b: "resultText (fst (runPrompt stubBuiltins scriptedClient ''First prompt''
       [sessionCreated, Inr [(''data'', JObj [(''parts'', JArr [])])], sessionDeleted]))
       = ''<json>''"
    using result_text_priority [where B = stubBuiltins and client = scriptedClient
        and prompt = "''First prompt''"
        and s = "[sessionCreated, Inr [(''data'', JObj [(''parts'', JArr [])])], sessionDeleted]"
        and sessionResponse = "[(''data'', JObj [(''id'', JStr ''ses_1'')])]"
        and ?s1.0 = "[Inr [(''data'', JObj [(''parts'', JArr [])])], sessionDeleted]"
        and promptResponse = "[(''data'', JObj [(''parts'', JArr [])])]"
        and ?s2.0 = "[sessionDeleted]"
        and body = "JObj [(''parts'', JArr [])]"]
    by (simp add: defs)
  from a b show ?thesis by blast
qed

text \<open>
  C9. \<^verbatim>\<open>formatErrorDetails\<close> joins, in order, the lines of the levels of the cause chain at
  depths 0 to 3; deeper levels give nothing. An \<^verbatim>\<open>Error\<close> gives its message (after
  \<^verbatim>\<open>Caused by: \<close> below the top) and then a line for each of code, syscall and host that is
  there and not empty, the host line with the port when there is one. The function is
  total: no absent field makes it fail.
\<close>

theorem error_details_flatten_cause_chain:
  "formatErrorDetails B e
     = join [CHR 0x0A, CHR '' '', CHR '' '']
         (concat (map (\<lambda>(depth, level). levelLines B depth level)
            (zip [0, 1, 2, 3] (causeChain e))))"
proof -
  have "[0..<4] = [0, 1, 2, 3 :: nat]"
    by (simp add: upt_conv_Cons)
  then show ?thesis
    by (simp add: formatErrorDetails_def extractError_flattened flattened_def)
qed

text \<open>
  A chain of five errors. The fifth is left out; the empty code of the third gives no
  line, nor does its port, for want of a host.
\<close>

theorem error_details_flatten_cause_chain_witness:
  "formatErrorDetails stubBuiltins
     (Error ''fetch failed'' None None None None
       (Some (Error ''connect ECONNREFUSED'' (Some ''ECONNREFUSED'') (Some ''connect'')
          (Some ''localhost'') (Some 4096)
          (Some (Error ''level 2'' (Some []) None None (Some 80)
             (Some (Error ''level 3'' None None None None
                (Some (Error ''level 4'' (Some ''EPIPE'') None None None None)))))))))
   = join [CHR 0x0A, CHR '' '', CHR '' '']
       [''fetch failed'',
        ''Caused by: connect ECONNREFUSED'', ''  Code: ECONNREFUSED'', ''  Syscall: connect'',
        ''  Host: localhost:<string>'',
        ''Caused by: level 2'',
        ''Caused by: level 3'']"
  using error_details_flatten_cause_chain [of stubBuiltins
      "Error ''fetch failed'' None None None None
       (Some (Error ''connect ECONNREFUSED'' (Some ''ECONNREFUSED'') (Some ''connect'')
          (Some ''localhost'') (Some 4096)
          (Some (Error ''level 2'' (Some []) None None (Some 80)
             (Some (Error ''level 3'' None None None None
                (Some (Error ''level 4'' (Some ''EPIPE'') None None None None))))))))"]
  by (simp add: stubBuiltins_def)

text \<open>
  C10. Whatever the client does, the result of \<^verbatim>\<open>runPrompt\<close> has \<^verbatim>\<open>success\<close> true exactly
  when its \<^verbatim>\<open>errorType\<close> is \<^verbatim>\<open>ERROR_TYPE_NONE\<close>.
\<close>

theorem success_iff_no_error:
  "success (fst (runPrompt B client prompt s))
     \<longleftrightarrow> errorType (fst (runPrompt B client prompt s)) = ERROR_TYPE_NONE"
  by (simp add: runPrompt_def tryBlock_def catchBlock_def Let_def
      split: prod.splits sum.splits)

end
